theory Spec2Isabelle
  imports Main "HOL-Library.Word"
begin

unbundle bit_operations_syntax

section \<open>Bytes, strings and errors\<close>

text \<open>
  A Go \<open>string\<close> is an immutable sequence of bytes, and so is an Isabelle \<open>string\<close>
  (a list of 8-bit characters); \<open>len(s)\<close> is \<open>length s\<close>. A \<open>[]byte\<close> is a list of
  8-bit words. The conversions \<open>[]byte(s)\<close> and \<open>string(b)\<close> keep every byte.
\<close>

type_synonym byte = "8 word"

definition bytes_of_string :: "string \<Rightarrow> byte list" where
  "bytes_of_string s = map of_char s"

definition string_of_bytes :: "byte list \<Rightarrow> string" where
  "string_of_bytes bs = map (\<lambda>b. char_of (unat b)) bs"

text \<open>
  Errors are values. \<open>Errorf\<close> carries the message of a \<open>fmt.Errorf\<close> call; \<open>EOF\<close> is
  \<open>io.EOF\<close>; \<open>NetError\<close> stands for any failure of the transport.
\<close>

datatype error = EOF | NetError string | Errorf string

text \<open>The error kinds of the specification, as the messages the code gives them.\<close>

definition UnsupportedFragmentation :: error where
  "UnsupportedFragmentation = Errorf ''Continuation frames are not supported''"

definition UnsupportedFrameType :: error where
  "UnsupportedFrameType = Errorf ''Only text frames are supported''"

definition MaskingPolicyViolation :: error where
  "MaskingPolicyViolation = Errorf ''Server frames should not be masked''"

definition PayloadTooLarge :: error where
  "PayloadTooLarge = Errorf ''Message too long''"

section \<open>The buffered reader\<close>

text \<open>
  The underlying \<open>io.Reader\<close> (a TCP connection, a \<open>bytes.Reader\<close>) is the list of chunks
  it will deliver: one call of its \<open>Read\<close> with room for \<open>cap\<close> bytes returns at most one
  chunk, cut to \<open>cap\<close> bytes (what is cut off stays for the next call), and \<open>io.EOF\<close> with no
  bytes once the chunks are used up.
\<close>

definition rd_Read :: "byte list list \<Rightarrow> nat \<Rightarrow> byte list list \<times> byte list \<times> error option" where
  "rd_Read cs cap =
     (case cs of
        [] \<Rightarrow> ([], [], Some EOF)
      | c # cs' \<Rightarrow>
          if length c \<le> cap then (cs', c, None)
          else (drop cap c # cs', take cap c, None))"

text \<open>\<open>bytes.NewReader(s)\<close>: everything that is left is delivered by one call.\<close>

definition bytes_NewReader :: "byte list \<Rightarrow> byte list list" where
  "bytes_NewReader s = (if s = [] then [] else [s])"

text \<open>
  \<open>bufio.Reader\<close>: \<open>buffered\<close> is the unread part \<open>b.buf[b.r:b.w]\<close> of its buffer, \<open>rerr\<close>
  the pending error \<open>b.err\<close>, \<open>bufsize\<close> is \<open>len(b.buf)\<close>, \<open>rd\<close> the underlying reader.
\<close>

record Reader =
  buffered :: "byte list"
  rerr :: "error option"
  bufsize :: nat
  rd :: "byte list list"

definition NewReader :: "byte list list \<Rightarrow> Reader" where
  "NewReader src = \<lparr>buffered = [], rerr = None, bufsize = 4096, rd = src\<rparr>"

text \<open>The built-in \<open>copy(dst, src)\<close>, returning the new contents of \<open>dst\<close>.\<close>

definition copy_bytes :: "byte list \<Rightarrow> byte list \<Rightarrow> byte list" where
  "copy_bytes dst src = take (length dst) src @ drop (length src) dst"

text \<open>
  \<open>(*bufio.Reader).Read(p)\<close> returns the reader, the new contents of \<open>p\<close>, the count \<open>n\<close>
  and the error. It calls the underlying reader at most once, and only when its buffer is
  empty: the count can be less than \<open>len(p)\<close>.
\<close>

definition Read :: "Reader \<Rightarrow> byte list \<Rightarrow> Reader \<times> byte list \<times> nat \<times> error option" where
  "Read b p =
     (if length p = 0 then
        (if buffered b \<noteq> [] then (b, p, 0, None)
         else (b\<lparr>rerr := None\<rparr>, p, 0, rerr b))
      else if buffered b = [] then
        (case rerr b of
           Some e \<Rightarrow> (b\<lparr>rerr := None\<rparr>, p, 0, Some e)
         | None \<Rightarrow>
             if length p \<ge> bufsize b then
               (case rd_Read (rd b) (length p) of
                  (src, data, e) \<Rightarrow> (b\<lparr>rd := src\<rparr>, copy_bytes p data, length data, e))
             else
               (case rd_Read (rd b) (bufsize b) of
                  (src, data, e) \<Rightarrow>
                    if length data = 0 then (b\<lparr>rd := src\<rparr>, p, 0, e)
                    else (b\<lparr>buffered := drop (length p) data, rerr := e, rd := src\<rparr>,
                          copy_bytes p data, min (length p) (length data), None)))
      else (b\<lparr>buffered := drop (length p) (buffered b)\<rparr>,
            copy_bytes p (buffered b), min (length p) (length (buffered b)), None))"

text \<open>The bytes a reader has still to deliver, buffered or not.\<close>

definition remaining :: "Reader \<Rightarrow> byte list" where
  "remaining b = buffered b @ concat (rd b)"

section \<open>The frame decoder of the client\<close>

definition readTextMessage :: "Reader \<Rightarrow> Reader \<times> (error + string)" where
  "readTextMessage r =
     (case Read r (replicate 2 0) of
        (r1, header, n, Some err) \<Rightarrow> (r1, Inl err)
      | (r1, header, n, None) \<Rightarrow>
          let fin = (header ! 0 AND 0x80 \<noteq> 0);
              opcode = header ! 0 AND 0x0F;
              masked = (header ! 1 AND 0x80 \<noteq> 0);
              payloadLen = unat (header ! 1 AND 0x7F)
          in if \<not> fin then (r1, Inl (Errorf ''Continuation frames are not supported''))
             else if opcode \<noteq> 0x1 then (r1, Inl (Errorf ''Only text frames are supported''))
             else if masked then (r1, Inl (Errorf ''Server frames should not be masked''))
             else (case Read r1 (replicate payloadLen 0) of
                     (r2, payload, m, Some err) \<Rightarrow> (r2, Inl err)
                   | (r2, payload, m, None) \<Rightarrow> (r2, Inr (string_of_bytes payload))))"

section \<open>The buffered writer and the frame encoder of the server\<close>

text \<open>
  \<open>bufio.Writer\<close>: \<open>wbuf\<close> holds the bytes written and not yet flushed, \<open>werr\<close> is the
  sticky error \<open>b.err\<close>, \<open>wr\<close> the bytes the underlying writer has accepted, and
  \<open>wr_fail\<close> the error its \<open>Write\<close> returns, if it fails. The capacity of the buffer is
  left out: a full buffer makes \<open>Write\<close> flush early, which changes when bytes reach the
  connection, not which bytes nor their order.
\<close>

record Writer =
  wbuf :: "byte list"
  werr :: "error option"
  wr :: "byte list"
  wr_fail :: "error option"

definition NewWriter :: "byte list \<Rightarrow> Writer" where
  "NewWriter out = \<lparr>wbuf = [], werr = None, wr = out, wr_fail = None\<rparr>"

definition Write :: "Writer \<Rightarrow> byte list \<Rightarrow> Writer \<times> error option" where
  "Write b p =
     (case werr b of
        Some e \<Rightarrow> (b, Some e)
      | None \<Rightarrow> (b\<lparr>wbuf := wbuf b @ p\<rparr>, None))"

definition Flush :: "Writer \<Rightarrow> Writer \<times> error option" where
  "Flush b =
     (case werr b of
        Some e \<Rightarrow> (b, Some e)
      | None \<Rightarrow>
          if wbuf b = [] then (b, None)
          else (case wr_fail b of
                  Some e \<Rightarrow> (b\<lparr>werr := Some e\<rparr>, Some e)
                | None \<Rightarrow> (b\<lparr>wbuf := [], wr := wr b @ wbuf b\<rparr>, None)))"

definition sendTextMessage :: "Writer \<Rightarrow> string \<Rightarrow> Writer \<times> error option" where
  "sendTextMessage w message =
     (let payloadLen = length message
      in if payloadLen > 125 then (w, Some (Errorf ''Message too long''))
         else
           let frame = [0x81];
               frame = frame @ [of_nat payloadLen];
               frame = frame @ bytes_of_string message
           in (case Write w frame of
                 (w1, Some err) \<Rightarrow> (w1, Some err)
               | (w1, None) \<Rightarrow> Flush w1))"

section \<open>The accept key\<close>

text \<open>
  \<open>crypto/sha1\<close> and \<open>encoding/base64\<close> are the Go standard library. They are
  modelled from the standards they implement: SHA-1 as in FIPS 180-4, on 32-bit words
  held as natural numbers with every wrap-around written out, and the standard base64
  alphabet with padding of RFC 4648.
\<close>

type_synonym u32 = nat

definition add32 :: "u32 \<Rightarrow> u32 \<Rightarrow> u32" where
  "add32 x y = (x + y) mod 2 ^ 32"

definition RotateLeft32 :: "u32 \<Rightarrow> nat \<Rightarrow> u32" where
  "RotateLeft32 x k = (x * 2 ^ k) mod 2 ^ 32 + x div 2 ^ (32 - k)"

definition not32 :: "u32 \<Rightarrow> u32" where
  "not32 x = 2 ^ 32 - 1 - x"

definition be32 :: "byte list \<Rightarrow> u32" where
  "be32 bs = foldl (\<lambda>acc b. acc * 256 + unat b) 0 bs"

definition put32 :: "u32 \<Rightarrow> byte list" where
  "put32 w = [of_nat (w div 2 ^ 24), of_nat (w div 2 ^ 16), of_nat (w div 2 ^ 8), of_nat w]"

definition put64 :: "nat \<Rightarrow> byte list" where
  "put64 w = map (\<lambda>i. of_nat (w div 2 ^ i)) [56, 48, 40, 32, 24, 16, 8, 0]"

text \<open>
  Padding: the byte \<open>0x80\<close>, zero bytes up to 56 modulo 64, and the length of the
  message in bits as a 64-bit big-endian number.
\<close>

definition sha1_pad :: "byte list \<Rightarrow> byte list" where
  "sha1_pad m =
     m @ [0x80] @ replicate ((119 - length m mod 64) mod 64) 0
       @ put64 (8 * length m mod 2 ^ 64)"

fun chunks :: "nat \<Rightarrow> nat \<Rightarrow> 'a list \<Rightarrow> 'a list list" where
  "chunks 0 n xs = []"
| "chunks (Suc k) n xs = take n xs # chunks k n (drop n xs)"

text \<open>
  The message schedule, newest word first: with \<open>w\<^sub>t\<^sub>-\<^sub>1\<close> at the head of the list,
  the next word is \<open>w\<^sub>t\<^sub>-\<^sub>3 XOR w\<^sub>t\<^sub>-\<^sub>8 XOR w\<^sub>t\<^sub>-\<^sub>1\<^sub>4 XOR w\<^sub>t\<^sub>-\<^sub>1\<^sub>6\<close> rotated left by one.
\<close>

fun schedule :: "nat \<Rightarrow> u32 list \<Rightarrow> u32 list" where
  "schedule 0 w = w"
| "schedule (Suc k) w =
     schedule k (RotateLeft32 (w ! 2 XOR w ! 7 XOR w ! 13 XOR w ! 15) 1 # w)"

type_synonym digest = "u32 \<times> u32 \<times> u32 \<times> u32 \<times> u32"

definition f_ch :: "u32 \<Rightarrow> u32 \<Rightarrow> u32 \<Rightarrow> u32" where
  "f_ch b c d = (b AND c) OR (not32 b AND d)"

definition f_parity :: "u32 \<Rightarrow> u32 \<Rightarrow> u32 \<Rightarrow> u32" where
  "f_parity b c d = b XOR c XOR d"

definition f_maj :: "u32 \<Rightarrow> u32 \<Rightarrow> u32 \<Rightarrow> u32" where
  "f_maj b c d = (b AND c) OR (b AND d) OR (c AND d)"

text \<open>Twenty rounds with one round function and one round constant.\<close>

fun rounds :: "(u32 \<Rightarrow> u32 \<Rightarrow> u32 \<Rightarrow> u32) \<Rightarrow> u32 \<Rightarrow> u32 list \<Rightarrow> digest \<Rightarrow> digest" where
  "rounds f k [] s = s"
| "rounds f k (w # ws) (a, b, c, d, e) =
     rounds f k ws
       (add32 (add32 (add32 (add32 (RotateLeft32 a 5) (f b c d)) e) w) k,
        a, RotateLeft32 b 30, c, d)"

definition block :: "digest \<Rightarrow> byte list \<Rightarrow> digest" where
  "block h p =
     (let w = rev (schedule 64 (rev (map be32 (chunks 16 4 p)))) in
      case h of (h0, h1, h2, h3, h4) \<Rightarrow>
        (case rounds f_parity 0xCA62C1D6 (drop 60 w)
               (rounds f_maj 0x8F1BBCDC (take 20 (drop 40 w))
                 (rounds f_parity 0x6ED9EBA1 (take 20 (drop 20 w))
                   (rounds f_ch 0x5A827999 (take 20 w) h))) of
           (a, b, c, d, e) \<Rightarrow>
             (add32 h0 a, add32 h1 b, add32 h2 c, add32 h3 d, add32 h4 e)))"

definition sha1_Sum :: "byte list \<Rightarrow> byte list" where
  "sha1_Sum m =
     (let p = sha1_pad m
      in case foldl block (0x67452301, 0xEFCDAB89, 0x98BADCFE, 0x10325476, 0xC3D2E1F0)
                (chunks (length p div 64) 64 p) of
           (h0, h1, h2, h3, h4) \<Rightarrow>
             put32 h0 @ put32 h1 @ put32 h2 @ put32 h3 @ put32 h4)"

definition encodeStd :: string where
  "encodeStd = ''ABCDEFGHIJKLMNOPQRSTUVWXYZabcdefghijklmnopqrstuvwxyz0123456789+/''"

text \<open>\<open>base64.StdEncoding.EncodeToString\<close>: three bytes give four characters.\<close>

fun EncodeToString :: "byte list \<Rightarrow> string" where
  "EncodeToString (a # b # c # rest) =
     (let val = push_bit 16 (unat a) OR push_bit 8 (unat b) OR unat c
      in [encodeStd ! (drop_bit 18 val AND 0x3F), encodeStd ! (drop_bit 12 val AND 0x3F),
          encodeStd ! (drop_bit 6 val AND 0x3F), encodeStd ! (val AND 0x3F)]
         @ EncodeToString rest)"
| "EncodeToString [a, b] =
     (let val = push_bit 16 (unat a) OR push_bit 8 (unat b)
      in [encodeStd ! (drop_bit 18 val AND 0x3F), encodeStd ! (drop_bit 12 val AND 0x3F),
          encodeStd ! (drop_bit 6 val AND 0x3F), CHR ''=''])"
| "EncodeToString [a] =
     (let val = push_bit 16 (unat a)
      in [encodeStd ! (drop_bit 18 val AND 0x3F), encodeStd ! (drop_bit 12 val AND 0x3F),
          CHR ''='', CHR ''=''])"
| "EncodeToString [] = []"

definition magicString :: string where
  "magicString = ''258EAFA5-E914-47DA-95CA-C5AB0DC85B11''"

definition computeAcceptKey :: "string \<Rightarrow> string" where
  "computeAcceptKey secWebSocketKey =
     EncodeToString (sha1_Sum (bytes_of_string (secWebSocketKey @ magicString)))"

section \<open>The handshake responder\<close>

text \<open>
  An \<open>http.Header\<close> is a map from header names to values. \<open>Get\<close> returns the empty
  string for a name that is absent. \<open>Get\<close>, \<open>Set\<close> and \<open>Del\<close> bring the name to its
  canonical form first, all three in the same way, so the names are kept as the
  handler writes them.
\<close>

type_synonym Header = "string \<rightharpoonup> string"

definition Header_Get :: "Header \<Rightarrow> string \<Rightarrow> string" where
  "Header_Get h key = (case h key of None \<Rightarrow> [] | Some v \<Rightarrow> v)"

definition Header_Set :: "Header \<Rightarrow> string \<Rightarrow> string \<Rightarrow> Header" where
  "Header_Set h key v = h(key \<mapsto> v)"

definition Header_Del :: "Header \<Rightarrow> string \<Rightarrow> Header" where
  "Header_Del h key = h(key := None)"

record Request =
  req_Header :: Header

text \<open>
  What the \<open>http.ResponseWriter\<close> can do about a takeover of the connection: it is no
  \<open>http.Hijacker\<close>, or its \<open>Hijack\<close> fails with a message, or it hands the connection over.
\<close>

datatype Hijacker = NotHijacker | HijackFails string | Hijackable

text \<open>
  The response writer together with its connection: \<open>header\<close> is the map that
  \<open>w.Header()\<close> returns, \<open>sent\<close> the status code and the headers of the response once
  they are written, \<open>body\<close> the bytes written through \<open>w.Write\<close>, \<open>conn\<close> the buffered
  writer of the connection that \<open>Hijack\<close> returns (it receives what follows the response
  header), \<open>hijacked\<close> and \<open>closed\<close> the state of the connection.
\<close>

record ResponseWriter =
  header :: Header
  sent :: "(nat \<times> Header) option"
  body :: string
  hijacker :: Hijacker
  hijacked :: bool
  conn :: Writer
  closed :: bool

definition NewResponseWriter :: "Hijacker \<Rightarrow> Writer \<Rightarrow> ResponseWriter" where
  "NewResponseWriter hj c =
     \<lparr>header = Map.empty, sent = None, body = [], hijacker = hj, hijacked = False,
      conn = c, closed = False\<rparr>"

definition StatusSwitchingProtocols :: nat where "StatusSwitchingProtocols = 101"
definition StatusOK :: nat where "StatusOK = 200"
definition StatusBadRequest :: nat where "StatusBadRequest = 400"
definition StatusForbidden :: nat where "StatusForbidden = 403"
definition StatusInternalServerError :: nat where "StatusInternalServerError = 500"

text \<open>
  \<open>WriteHeader\<close> sends the status line and the headers as they are at that moment. Only
  the first call counts: a later one is superfluous and changes nothing.
\<close>

definition WriteHeader :: "ResponseWriter \<Rightarrow> nat \<Rightarrow> ResponseWriter" where
  "WriteHeader w code =
     (case sent w of
        Some x \<Rightarrow> w
      | None \<Rightarrow> w\<lparr>sent := Some (code, header w)\<rparr>)"

text \<open>\<open>w.Write\<close> writes the header with status 200 first if none is written yet.\<close>

definition rw_Write :: "ResponseWriter \<Rightarrow> string \<Rightarrow> ResponseWriter" where
  "rw_Write w data =
     (let w1 = (if sent w = None then WriteHeader w StatusOK else w)
      in w1\<lparr>body := body w1 @ data\<rparr>)"

text \<open>
  \<open>http.Error\<close> sets the headers of a plain-text reply, writes the header with the
  code and prints the message with \<open>fmt.Fprintln\<close>, which ends it with a line feed.
\<close>

definition http_Error :: "ResponseWriter \<Rightarrow> string \<Rightarrow> nat \<Rightarrow> ResponseWriter" where
  "http_Error w msg code =
     (let h = Header_Del (header w) ''Content-Length'';
          h = Header_Set h ''Content-Type'' ''text/plain; charset=utf-8'';
          h = Header_Set h ''X-Content-Type-Options'' ''nosniff'';
          w = WriteHeader (w\<lparr>header := h\<rparr>) code
      in rw_Write w (msg @ [CHR 0x0A]))"

text \<open>
  The handler. Its calls of \<open>log\<close> write to the log of the process only and are left
  out. \<open>defer conn.Close()\<close> closes the connection on both ways out after the takeover.
\<close>

definition wsHandler :: "ResponseWriter \<Rightarrow> Request \<Rightarrow> ResponseWriter" where
  "wsHandler w r =
     (let allowedOrigin = ''http://localhost:8080'';
          origin = Header_Get (req_Header r) ''Origin''
      in if origin \<noteq> allowedOrigin then http_Error w ''Origin not allowed'' StatusForbidden
         else if Header_Get (req_Header r) ''Upgrade'' \<noteq> ''websocket''
           then http_Error w ''Not a valid WebSocket handshake'' StatusBadRequest
         else
           let secWebSocketKey = Header_Get (req_Header r) ''Sec-WebSocket-Key''
           in if secWebSocketKey = [] then http_Error w ''Missing Sec-WebSocket-Key'' StatusBadRequest
              else
                let secWebSocketAccept = computeAcceptKey secWebSocketKey;
                    h = Header_Set (header w) ''Upgrade'' ''websocket'';
                    h = Header_Set h ''Connection'' ''Upgrade'';
                    h = Header_Set h ''Sec-WebSocket-Accept'' secWebSocketAccept;
                    w = WriteHeader (w\<lparr>header := h\<rparr>) StatusSwitchingProtocols
                in (case hijacker w of
                      NotHijacker \<Rightarrow>
                        http_Error w ''Hijacking not supported'' StatusInternalServerError
                    | HijackFails err \<Rightarrow>
                        http_Error w (''Could not hijack connection: '' @ err)
                          StatusInternalServerError
                    | Hijackable \<Rightarrow>
                        let w = w\<lparr>hijacked := True\<rparr>;
                            message = ''Hello World''
                        in (case sendTextMessage (conn w) message of
                              (c, Some err) \<Rightarrow> w\<lparr>conn := c, closed := True\<rparr>
                            | (c, None) \<Rightarrow> w\<lparr>conn := c, closed := True\<rparr>)))"

text \<open>
  The upgrade request of the tests: the allowed origin, \<open>Upgrade: websocket\<close>, the
  sample key and the protocol version.
\<close>

definition handshake :: Request where
  "handshake =
     \<lparr>req_Header = [''Origin'' \<mapsto> ''http://localhost:8080'', ''Upgrade'' \<mapsto> ''websocket'',
        ''Sec-WebSocket-Key'' \<mapsto> ''dGhlIHNhbXBsZSBub25jZQ=='',
        ''Sec-WebSocket-Version'' \<mapsto> ''13'']\<rparr>"

section \<open>Facts about bytes and strings\<close>

lemma unat_len: "n < 256 \<Longrightarrow> unat (of_nat n :: byte) = n"
  by (simp add: unat_of_nat)

lemma len_mask: "n < 128 \<Longrightarrow> (of_nat n :: byte) AND 0x7F = of_nat n"
proof -
  assume a: "n < 128"
  have "(of_nat n :: byte) AND mask 7 = take_bit 7 (of_nat n)"
    by (simp add: take_bit_eq_mask)
  also have "\<dots> = of_nat (take_bit 7 n)"
    by (simp add: take_bit_of_nat)
  also have "take_bit 7 n = n"
    using a by (simp add: take_bit_nat_eq_self)
  finally show ?thesis by (simp add: mask_eq_exp_minus_1)
qed

lemma len_high: "n < 128 \<Longrightarrow> (of_nat n :: byte) AND 0x80 = 0"
proof -
  assume a: "n < 128"
  have "\<not> bit n 7"
    using a by (simp add: bit_iff_odd)
  then have "\<not> bit (of_nat n :: byte) 7"
    by (simp add: bit_of_nat_iff)
  then have "(of_nat n :: byte) AND 2 ^ 7 = 0"
    using and_exp_eq_0_iff_not_bit [of "of_nat n :: byte" 7] by blast
  then show ?thesis by simp
qed

lemma char_of_unat_of_char: "char_of (unat (of_char a :: byte)) = a"
proof -
  have "unat (of_char a :: byte) = unat (of_nat (of_char a) :: byte)"
    by (simp only: of_nat_of_char)
  also have "\<dots> = of_char a"
    by (simp add: unat_of_nat)
  finally show ?thesis by simp
qed

lemma string_of_bytes_of_string: "string_of_bytes (bytes_of_string s) = s"
  by (induction s) (simp_all add: string_of_bytes_def bytes_of_string_def char_of_unat_of_char)

section \<open>The frame encoder\<close>

text \<open>
  Claim C7. \<open>sendTextMessage\<close> succeeds for every message of at most 125 bytes, on a
  writer with no pending error over a connection that accepts the bytes: the connection
  receives what was buffered before, then the header \<open>[0x81, length]\<close> and the bytes of
  the message as they are; the mask bit of the length byte is clear and the byte holds
  the length. For every message of 126 bytes or more it fails with the error for a
  payload that is too large, and the writer is as it was: no byte is written.
\<close>

theorem sendTextMessage_boundary:
  "(length message \<le> 125 \<and> werr w = None \<and> wr_fail w = None \<longrightarrow>
      sendTextMessage w message =
        (w\<lparr>wbuf := [],
           wr := wr w @ wbuf w @ [0x81, of_nat (length message)] @ bytes_of_string message\<rparr>,
         None)
      \<and> (of_nat (length message) :: byte) AND 0x80 = 0
      \<and> unat (of_nat (length message) :: byte) = length message)
   \<and> (126 \<le> length message \<longrightarrow> sendTextMessage w message = (w, Some PayloadTooLarge))"
proof (intro conjI impI)
  assume a: "length message \<le> 125 \<and> werr w = None \<and> wr_fail w = None"
  then show "sendTextMessage w message =
        (w\<lparr>wbuf := [],
           wr := wr w @ wbuf w @ [0x81, of_nat (length message)] @ bytes_of_string message\<rparr>,
         None)"
    by (simp add: sendTextMessage_def Write_def Flush_def)
  from a show "(of_nat (length message) :: byte) AND 0x80 = 0"
    by (simp add: len_high)
  from a show "unat (of_nat (length message) :: byte) = length message"
    by (simp add: unat_len)
next
  assume "126 \<le> length message"
  then show "sendTextMessage w message = (w, Some PayloadTooLarge)"
    by (simp add: sendTextMessage_def PayloadTooLarge_def)
qed

theorem sendTextMessage_boundary_witness:
  "sendTextMessage (NewWriter []) (replicate 125 (CHR ''a'')) =
     (NewWriter ([0x81, 125] @ replicate 125 0x61), None)
   \<and> sendTextMessage (NewWriter []) (replicate 126 (CHR ''a'')) =
     (NewWriter [], Some (Errorf ''Message too long''))"
  using sendTextMessage_boundary [of "replicate 125 (CHR ''a'')" "NewWriter []"]
    sendTextMessage_boundary [of "replicate 126 (CHR ''a'')" "NewWriter []"]
  by (simp add: NewWriter_def PayloadTooLarge_def bytes_of_string_def)

section \<open>Evaluating the hash\<close>

lemma replicate_numeral:
  "replicate (numeral k) x = x # replicate (pred_numeral k) x"
  by (simp add: numeral_eq_Suc)

lemma chunks_numeral:
  "chunks (numeral k) n xs = take n xs # chunks (pred_numeral k) n (drop n xs)"
  by (simp add: numeral_eq_Suc)

lemma schedule_numeral:
  "schedule (numeral k) w =
     schedule (pred_numeral k) (RotateLeft32 (w ! 2 XOR w ! 7 XOR w ! 13 XOR w ! 15) 1 # w)"
  by (simp add: numeral_eq_Suc)

lemmas sha1_eval = sha1_Sum_def sha1_pad_def bytes_of_string_def put64_def put32_def be32_def
  block_def add32_def RotateLeft32_def not32_def f_ch_def f_parity_def f_maj_def
  chunks_numeral schedule_numeral replicate_numeral

text \<open>The first test vector of the standard: the digest of \<open>abc\<close>.\<close>

lemma sha1_Sum_abc:
  "sha1_Sum (bytes_of_string ''abc'') =
     [0xA9, 0x99, 0x3E, 0x36, 0x47, 0x06, 0x81, 0x6A, 0xBA, 0x3E,
      0x25, 0x71, 0x78, 0x50, 0xC2, 0x6C, 0x9C, 0xD0, 0xD8, 0x9D]"
  by (simp add: sha1_eval)

lemma EncodeToString_Man:
  "EncodeToString (bytes_of_string ''Man'') = ''TWFu''
   \<and> EncodeToString (bytes_of_string ''Ma'') = ''TWE=''
   \<and> EncodeToString (bytes_of_string ''M'') = ''TQ==''"
  by (simp add: bytes_of_string_def encodeStd_def)

text \<open>
  Claim C1. For every key, \<open>computeAcceptKey\<close> is the base64 encoding of the SHA-1
  digest of the key followed by the fixed constant of 36 bytes
  \<open>258EAFA5-E914-47DA-95CA-C5AB0DC85B11\<close>, and for the key
  \<open>dGhlIHNhbXBsZSBub25jZQ==\<close> it is \<open>s3pPLMBiTxaQ9kYGzzhZRbK+xOo=\<close>. It is a function
  of its argument alone.
\<close>

theorem computeAcceptKey_spec:
  "computeAcceptKey k =
     EncodeToString (sha1_Sum (bytes_of_string (k @ ''258EAFA5-E914-47DA-95CA-C5AB0DC85B11'')))
   \<and> length magicString = 36
   \<and> computeAcceptKey ''dGhlIHNhbXBsZSBub25jZQ=='' = ''s3pPLMBiTxaQ9kYGzzhZRbK+xOo=''"
proof (intro conjI)
  show "computeAcceptKey k =
     EncodeToString (sha1_Sum (bytes_of_string (k @ ''258EAFA5-E914-47DA-95CA-C5AB0DC85B11'')))"
    by (simp only: computeAcceptKey_def magicString_def)
  show "length magicString = 36"
    by (simp add: magicString_def)
  show "computeAcceptKey ''dGhlIHNhbXBsZSBub25jZQ=='' = ''s3pPLMBiTxaQ9kYGzzhZRbK+xOo=''"
    by (simp add: computeAcceptKey_def magicString_def sha1_eval encodeStd_def)
qed

section \<open>The frame decoder\<close>

lemma decode_header_cases:
  assumes "Read r (replicate 2 0) = (r1, [b0, b1], n, None)"
  shows "readTextMessage r =
     (if b0 AND 0x80 = 0 then (r1, Inl UnsupportedFragmentation)
      else if b0 AND 0x0F \<noteq> 1 then (r1, Inl UnsupportedFrameType)
      else if b1 AND 0x80 \<noteq> 0 then (r1, Inl MaskingPolicyViolation)
      else (case Read r1 (replicate (unat (b1 AND 0x7F)) 0) of
              (r2, payload, m, Some err) \<Rightarrow> (r2, Inl err)
            | (r2, payload, m, None) \<Rightarrow> (r2, Inr (string_of_bytes payload))))"
  using assms
  by (simp add: readTextMessage_def UnsupportedFragmentation_def UnsupportedFrameType_def
      MaskingPolicyViolation_def)

lemma take_drop_take:
  assumes "a \<le> b"
  shows "take a xs @ drop a (take b xs) @ drop b xs = xs"
proof -
  have "take a (take b xs) @ drop a (take b xs) = take b xs"
    by (rule append_take_drop_id)
  moreover have "take a (take b xs) = take a xs"
    using assms by (simp add: min_def)
  ultimately have "take a xs @ drop a (take b xs) = take b xs"
    by simp
  then have "(take a xs @ drop a (take b xs)) @ drop b xs = xs"
    by simp
  then show ?thesis by simp
qed

lemma Read_remaining:
  assumes "Read r p = (r', p', n, e)"
  shows "remaining r = take n p' @ remaining r'"
  using assms
  by (auto simp: Read_def remaining_def rd_Read_def copy_bytes_def min_def take_drop_take
      split: if_splits option.splits list.splits prod.splits)

lemma take2: "2 \<le> length xs \<Longrightarrow> take 2 xs = [xs ! 0, xs ! 1]"
  by (cases xs; cases "tl xs") auto

lemma Read_header_in_memory:
  assumes "2 \<le> length input"
  shows "Read (NewReader (bytes_NewReader input)) (replicate 2 0) =
     ((NewReader (if length input \<le> 4096 then [] else [drop 4096 input]))
        \<lparr>buffered := drop 2 (take 4096 input)\<rparr>, [input ! 0, input ! 1], 2, None)"
proof -
  from assms have ne: "input \<noteq> []" by auto
  from assms have t: "take 2 input = [input ! 0, input ! 1]" by (rule take2)
  show ?thesis
    using assms ne t
    by (simp add: Read_def NewReader_def bytes_NewReader_def rd_Read_def copy_bytes_def min_def)
qed

lemma Read_header_buffered:
  assumes "2 \<le> length (buffered r)"
  shows "Read r (replicate 2 0) =
     (r\<lparr>buffered := drop 2 (buffered r)\<rparr>, [buffered r ! 0, buffered r ! 1], 2, None)"
proof -
  from assms have ne: "buffered r \<noteq> []" by auto
  from assms have t: "take 2 (buffered r) = [buffered r ! 0, buffered r ! 1]" by (rule take2)
  show ?thesis
    using assms ne t
    by (simp add: Read_def copy_bytes_def min_def)
qed

lemma decode_frame:
  assumes "length text \<le> 125"
  shows "readTextMessage
           (NewReader (bytes_NewReader ([0x81, of_nat (length text)] @ bytes_of_string text))) =
         (NewReader [], Inr text)"
proof -
  let ?n = "length text"
  let ?frame = "[0x81, of_nat ?n] @ bytes_of_string text"
  have len: "length (bytes_of_string text) = ?n"
    by (simp add: bytes_of_string_def)
  have hd: "Read (NewReader (bytes_NewReader ?frame)) (replicate 2 0) =
      ((NewReader [])\<lparr>buffered := bytes_of_string text\<rparr>, [0x81, of_nat ?n], 2, None)"
    using assms len Read_header_in_memory [of ?frame] by simp
  have hi: "(of_nat ?n :: byte) AND 0x80 = 0"
    using assms by (simp add: len_high)
  have lo: "unat ((of_nat ?n :: byte) AND 0x7F) = ?n"
    using assms by (simp add: len_mask unat_len)
  have pl: "Read ((NewReader [])\<lparr>buffered := bytes_of_string text\<rparr>) (replicate ?n 0) =
      (NewReader [], bytes_of_string text, ?n, None)"
  proof (cases "text = []")
    case True
    then show ?thesis
      by (simp add: Read_def NewReader_def bytes_of_string_def)
  next
    case False
    then have "bytes_of_string text \<noteq> []"
      by (simp add: bytes_of_string_def)
    with False len show ?thesis
      by (simp add: Read_def NewReader_def copy_bytes_def)
  qed
  show ?thesis
    by (subst decode_header_cases [OF hd])
      (simp add: hi lo pl string_of_bytes_of_string)
qed

lemmas decode_eval = readTextMessage_def Read_def NewReader_def bytes_NewReader_def rd_Read_def
  copy_bytes_def replicate_numeral



text \<open>
  What the decoder does with a header once its one read has returned: the checks are
  made in the order FIN, opcode, mask (\<open>decode_header_cases\<close>), and a failed check
  leaves the reader as that read left it, so that just the bytes the read delivered
  are taken from the stream.
\<close>

lemma header_error_after_header_read:
  assumes "Read r (replicate 2 0) = (r1, [b0, b1], n, None)"
    and "b0 AND 0x80 = 0 \<or> b0 AND 0x0F \<noteq> 1 \<or> b1 AND 0x80 \<noteq> 0"
  shows "fst (readTextMessage r) = r1
    \<and> snd (readTextMessage r) \<in>
          {Inl UnsupportedFragmentation, Inl UnsupportedFrameType, Inl MaskingPolicyViolation}
    \<and> remaining r = take n [b0, b1] @ remaining r1"
proof -
  have "remaining r = take n [b0, b1] @ remaining r1"
    using assms(1) by (rule Read_remaining)
  then show ?thesis
    using assms(2) by (auto simp: decode_header_cases [OF assms(1)])
qed

text \<open>The decodes of the tests, on streams that hold the whole frame in memory.\<close>

lemma readTextMessage_examples:
  "snd (readTextMessage (NewReader (bytes_NewReader [0x81, 0x05, 0x48, 0x65, 0x6C, 0x6C, 0x6F])))
       = Inr ''Hello''
   \<and> snd (readTextMessage (NewReader (bytes_NewReader [0x81, 0x00]))) = Inr []
   \<and> snd (readTextMessage (NewReader (bytes_NewReader [0x81, 0x80, 0x00, 0x00, 0x00, 0x00])))
       = Inl MaskingPolicyViolation
   \<and> snd (readTextMessage (NewReader (bytes_NewReader [0x00, 0x05, 0x48, 0x65, 0x6C, 0x6C, 0x6F])))
       = Inl UnsupportedFragmentation
   \<and> snd (readTextMessage (NewReader (bytes_NewReader [0x82, 0x05, 0x48, 0x65, 0x6C, 0x6C, 0x6F])))
       = Inl UnsupportedFrameType"
  by (simp add: decode_eval string_of_bytes_def char_of_eq_iff MaskingPolicyViolation_def
      UnsupportedFragmentation_def UnsupportedFrameType_def)

text \<open>
  Claim C4 asks that, for every input stream with at least two header bytes, the
  decoder goes past the header exactly when byte 0 has FIN set and the text opcode and
  byte 1 has the mask bit clear, and fails for the masking policy when that bit is
  set. The code checks the contents of its two-byte buffer after one \<open>Read\<close> whose
  count it ignores. When the stream delivers the byte \<open>0x81\<close> alone and then
  \<open>[0x80, 1, 2, 3, 4, 0x49]\<close>, a masked frame, the second header byte is never read:
  the buffer holds \<open>[0x81, 0x00]\<close>, no check fails, and \<open>readTextMessage\<close> returns the
  empty text with no error, leaving byte 1 and all that follows unread. The same bytes
  held in memory as one piece fail for the masking policy.
\<close>

theorem readTextMessage_header_short_read:
  "readTextMessage (NewReader [[0x81], [0x80, 0x01, 0x02, 0x03, 0x04, 0x49]]) =
     (\<lparr>buffered = [], rerr = None, bufsize = 4096,
       rd = [[0x80, 0x01, 0x02, 0x03, 0x04, 0x49]]\<rparr>,
      Inr [])
   \<and> snd (readTextMessage
          (NewReader (bytes_NewReader [0x81, 0x80, 0x01, 0x02, 0x03, 0x04, 0x49]))) =
       Inl MaskingPolicyViolation"
  by (simp add: decode_eval string_of_bytes_def MaskingPolicyViolation_def)

text \<open>
  Claim C10 asks that a failed check of the header is returned with exactly the two
  header bytes consumed. The code makes the checks after one \<open>Read\<close> whose count it
  ignores. When the stream delivers the byte \<open>0x00\<close> alone and then
  \<open>[0x05, H, e, l, l, o]\<close>, \<open>readTextMessage\<close> fails the FIN check having consumed one
  byte: the second header byte is still to be delivered with the rest. On a stream
  that holds the single byte \<open>0x00\<close> and then ends, it fails the FIN check as well,
  on a header that has one byte.
\<close>

theorem header_error_after_one_byte:
  "readTextMessage (NewReader [[0x00], [0x05, 0x48, 0x65, 0x6C, 0x6C, 0x6F]]) =
     (\<lparr>buffered = [], rerr = None, bufsize = 4096,
       rd = [[0x05, 0x48, 0x65, 0x6C, 0x6C, 0x6F]]\<rparr>,
      Inl UnsupportedFragmentation)
   \<and> remaining (NewReader [[0x00], [0x05, 0x48, 0x65, 0x6C, 0x6C, 0x6F]]) =
       [0x00] @ remaining \<lparr>buffered = [], rerr = None, bufsize = 4096,
                           rd = [[0x05, 0x48, 0x65, 0x6C, 0x6C, 0x6F]]\<rparr>
   \<and> readTextMessage (NewReader (bytes_NewReader [0x00])) =
       (NewReader [], Inl UnsupportedFragmentation)"
  by (simp add: decode_eval remaining_def UnsupportedFragmentation_def)

text \<open>
  Claim C2 asks that a length field of 126 or 127 makes the decoder fail. The code
  has no such check. On the input of the test \<open>Payload length 126\<close>, the bytes
  \<open>[0x81, 0x7E, 0x00, 0x7E]\<close>, \<open>readTextMessage\<close> returns no error: it takes 126 as
  the count, reads the two bytes that are left as payload and returns a text of 126
  bytes, those two and 124 zero bytes. A length field of 127 fares the same.
\<close>

theorem readTextMessage_extended_length_accepted:
  "snd (readTextMessage (NewReader (bytes_NewReader [0x81, 0x7E, 0x00, 0x7E]))) =
     Inr (string_of_bytes ([0x00, 0x7E] @ replicate 124 0))
   \<and> snd (readTextMessage (NewReader (bytes_NewReader [0x81, 0x7F, 0x41]))) =
     Inr (string_of_bytes ([0x41] @ replicate 126 0))"
  by (simp add: decode_eval)

text \<open>
  Claim C8 asks that the decoder obtains all the bytes it asks for when the stream
  delivers them in smaller chunks. The code calls \<open>Read\<close> once for the header and once
  for the payload and ignores the counts. When the frame \<open>[0x81, 0x05, H, e, l, l, o]\<close>
  arrives as \<open>[0x81, 0x05, H, e]\<close> and then \<open>[l, l, o]\<close>, \<open>readTextMessage\<close> returns the
  five bytes \<open>H, e, 0, 0, 0\<close> with no error and leaves \<open>l, l, o\<close> unread; when the first
  chunk is the byte \<open>0x81\<close> alone, it returns the empty text with no error.
\<close>

theorem readTextMessage_short_read:
  "readTextMessage (NewReader [[0x81, 0x05, 0x48, 0x65], [0x6C, 0x6C, 0x6F]]) =
     (\<lparr>buffered = [], rerr = None, bufsize = 4096, rd = [[0x6C, 0x6C, 0x6F]]\<rparr>,
      Inr (string_of_bytes [0x48, 0x65, 0x00, 0x00, 0x00]))
   \<and> readTextMessage (NewReader [[0x81], [0x05, 0x48, 0x65, 0x6C, 0x6C, 0x6F]]) =
     (\<lparr>buffered = [], rerr = None, bufsize = 4096, rd = [[0x05, 0x48, 0x65, 0x6C, 0x6C, 0x6F]]\<rparr>,
      Inr [])"
  by (simp add: decode_eval string_of_bytes_def)

section \<open>The handshake responder\<close>

lemmas handler_eval = wsHandler_def http_Error_def WriteHeader_def rw_Write_def
  Header_Get_def Header_Set_def Header_Del_def NewResponseWriter_def
  StatusForbidden_def StatusBadRequest_def StatusOK_def StatusSwitchingProtocols_def
  StatusInternalServerError_def

text \<open>
  Claim C5, as amended. For every request whose \<open>Origin\<close> header is not exactly the
  allowed origin, on every new response writer, \<open>wsHandler\<close> responds with status 403
  and the body \<open>Origin not allowed\<close> followed by a line feed. The outcome is the same
  whatever the other headers of the request are and whether or not the connection
  could be taken over: no later check is made, the connection is not taken over, and
  its writer is as it was, so no byte of a frame is written.
\<close>

theorem wsHandler_origin_rejected:
  "Header_Get (req_Header r) ''Origin'' \<noteq> ''http://localhost:8080'' \<Longrightarrow>
     wsHandler (NewResponseWriter hj c) r =
       \<lparr>header = [''Content-Type'' \<mapsto> ''text/plain; charset=utf-8'',
                  ''X-Content-Type-Options'' \<mapsto> ''nosniff''],
        sent = Some (403, [''Content-Type'' \<mapsto> ''text/plain; charset=utf-8'',
                           ''X-Content-Type-Options'' \<mapsto> ''nosniff'']),
        body = ''Origin not allowed'' @ [CHR 0x0A],
        hijacker = hj, hijacked = False, conn = c, closed = False\<rparr>"
  by (simp add: handler_eval Let_def)

theorem wsHandler_origin_rejected_witness:
  "wsHandler (NewResponseWriter Hijackable (NewWriter []))
      \<lparr>req_Header = [''Origin'' \<mapsto> ''http://example.com'', ''Upgrade'' \<mapsto> ''websocket'',
         ''Sec-WebSocket-Key'' \<mapsto> ''dGhlIHNhbXBsZSBub25jZQ=='']\<rparr> =
       \<lparr>header = [''Content-Type'' \<mapsto> ''text/plain; charset=utf-8'',
                  ''X-Content-Type-Options'' \<mapsto> ''nosniff''],
        sent = Some (403, [''Content-Type'' \<mapsto> ''text/plain; charset=utf-8'',
                           ''X-Content-Type-Options'' \<mapsto> ''nosniff'']),
        body = ''Origin not allowed'' @ [CHR 0x0A],
        hijacker = Hijackable, hijacked = False, conn = NewWriter [], closed = False\<rparr>"
  using wsHandler_origin_rejected [of "\<lparr>req_Header = [''Origin'' \<mapsto> ''http://example.com'', ''Upgrade'' \<mapsto> ''websocket'',
         ''Sec-WebSocket-Key'' \<mapsto> ''dGhlIHNhbXBsZSBub25jZQ=='']\<rparr>" Hijackable "NewWriter []"]
  by (simp add: Header_Get_def)

text \<open>
  Claim C5 as it is written fails on the request of the test for a rejected origin:
  the body is not \<open>Origin not allowed\<close>, since \<open>http.Error\<close> ends the message with a
  line feed.
\<close>

theorem wsHandler_origin_body_counterexample:
  "body (wsHandler (NewResponseWriter Hijackable (NewWriter []))
      \<lparr>req_Header = [''Origin'' \<mapsto> ''http://example.com'', ''Upgrade'' \<mapsto> ''websocket'',
         ''Sec-WebSocket-Key'' \<mapsto> ''dGhlIHNhbXBsZSBub25jZQ=='']\<rparr>) \<noteq> ''Origin not allowed''"
  by (simp add: handler_eval Let_def)

text \<open>
  Claim C6. For every request with the allowed origin, \<open>Upgrade: websocket\<close> and a key
  that is not empty, on a new response writer whose connection can be taken over and
  accepts the bytes, \<open>wsHandler\<close> responds with status 101 and the headers
  \<open>Upgrade: websocket\<close>, \<open>Connection: Upgrade\<close> and \<open>Sec-WebSocket-Accept\<close> with
  \<open>computeAcceptKey\<close> of the key, writes no body, takes the connection over, writes to
  it exactly one frame, the text frame of \<open>Hello World\<close>, and closes it; and
  \<open>readTextMessage\<close> decodes that frame to \<open>Hello World\<close>.
\<close>

theorem wsHandler_upgrade:
  assumes "Header_Get (req_Header r) ''Origin'' = ''http://localhost:8080''"
    and "Header_Get (req_Header r) ''Upgrade'' = ''websocket''"
    and "Header_Get (req_Header r) ''Sec-WebSocket-Key'' \<noteq> []"
    and "werr c = None" and "wr_fail c = None"
  shows "wsHandler (NewResponseWriter Hijackable c) r =
       \<lparr>header = [''Upgrade'' \<mapsto> ''websocket'', ''Connection'' \<mapsto> ''Upgrade'',
                  ''Sec-WebSocket-Accept'' \<mapsto>
                     computeAcceptKey (Header_Get (req_Header r) ''Sec-WebSocket-Key'')],
        sent = Some (101, [''Upgrade'' \<mapsto> ''websocket'', ''Connection'' \<mapsto> ''Upgrade'',
                  ''Sec-WebSocket-Accept'' \<mapsto>
                     computeAcceptKey (Header_Get (req_Header r) ''Sec-WebSocket-Key'')]),
        body = [],
        hijacker = Hijackable, hijacked = True,
        conn = c\<lparr>wbuf := [], wr := wr c @ wbuf c @ [0x81, 11] @ bytes_of_string ''Hello World''\<rparr>,
        closed = True\<rparr>
     \<and> snd (readTextMessage (NewReader (bytes_NewReader
             ([0x81, 11] @ bytes_of_string ''Hello World'')))) = Inr ''Hello World''"
proof -
  have s: "sendTextMessage c ''Hello World'' =
      (c\<lparr>wbuf := [], wr := wr c @ wbuf c @ [0x81, 11] @ bytes_of_string ''Hello World''\<rparr>, None)"
    using assms(4,5) by (simp add: sendTextMessage_def Write_def Flush_def)
  have d: "snd (readTextMessage (NewReader (bytes_NewReader
             ([0x81, 11] @ bytes_of_string ''Hello World'')))) = Inr ''Hello World''"
    using decode_frame [of "''Hello World''"] by simp
  have h: "wsHandler (NewResponseWriter Hijackable c) r =
       \<lparr>header = [''Upgrade'' \<mapsto> ''websocket'', ''Connection'' \<mapsto> ''Upgrade'',
                  ''Sec-WebSocket-Accept'' \<mapsto>
                     computeAcceptKey (Header_Get (req_Header r) ''Sec-WebSocket-Key'')],
        sent = Some (101, [''Upgrade'' \<mapsto> ''websocket'', ''Connection'' \<mapsto> ''Upgrade'',
                  ''Sec-WebSocket-Accept'' \<mapsto>
                     computeAcceptKey (Header_Get (req_Header r) ''Sec-WebSocket-Key'')]),
        body = [],
        hijacker = Hijackable, hijacked = True,
        conn = c\<lparr>wbuf := [], wr := wr c @ wbuf c @ [0x81, 11] @ bytes_of_string ''Hello World''\<rparr>,
        closed = True\<rparr>"
    using assms(1,2,3)
    apply (simp add: wsHandler_def Let_def)
    apply (simp add: WriteHeader_def Header_Set_def NewResponseWriter_def
        StatusSwitchingProtocols_def)
    apply (simp add: s)
    done
  from h d show ?thesis by simp
qed

theorem wsHandler_upgrade_witness:
  "sent (wsHandler (NewResponseWriter Hijackable (NewWriter [])) handshake) =
     Some (101, [''Upgrade'' \<mapsto> ''websocket'', ''Connection'' \<mapsto> ''Upgrade'',
                 ''Sec-WebSocket-Accept'' \<mapsto> computeAcceptKey ''dGhlIHNhbXBsZSBub25jZQ==''])
   \<and> wr (conn (wsHandler (NewResponseWriter Hijackable (NewWriter [])) handshake)) =
     [0x81, 11] @ bytes_of_string ''Hello World''"
proof -
  have 1: "Header_Get (req_Header handshake) ''Origin'' = ''http://localhost:8080''"
    by (simp add: handshake_def Header_Get_def)
  have 2: "Header_Get (req_Header handshake) ''Upgrade'' = ''websocket''"
    by (simp add: handshake_def Header_Get_def)
  have 3: "Header_Get (req_Header handshake) ''Sec-WebSocket-Key'' = ''dGhlIHNhbXBsZSBub25jZQ==''"
    by (simp add: handshake_def Header_Get_def)
  have k3: "Header_Get (req_Header handshake) ''Sec-WebSocket-Key'' \<noteq> []"
    by (simp add: 3)
  have 4: "werr (NewWriter []) = None" "wr_fail (NewWriter []) = None"
    by (simp_all add: NewWriter_def)
  show ?thesis
    using wsHandler_upgrade [OF 1 2 k3 4] by (simp add: 3 NewWriter_def)
qed

text \<open>
  Claim C9 asks for status 500 when the connection cannot be taken over. The handler
  writes the header with status 101 before it tries, so the call of \<open>http.Error\<close> with
  500 comes too late to set the status: on the upgrade request of the tests the
  status stays 101, both when the response writer is no hijacker (the message of the
  error is written as body) and when \<open>Hijack\<close> fails. No byte is written to the
  connection.
\<close>

theorem wsHandler_hijack_failure_status:
  "map_option fst (sent (wsHandler (NewResponseWriter NotHijacker (NewWriter [])) handshake)) =
     Some 101
   \<and> body (wsHandler (NewResponseWriter NotHijacker (NewWriter [])) handshake) =
     ''Hijacking not supported'' @ [CHR 0x0A]
   \<and> map_option fst (sent (wsHandler (NewResponseWriter (HijackFails ''connection closed'')
         (NewWriter [])) handshake)) = Some 101
   \<and> conn (wsHandler (NewResponseWriter NotHijacker (NewWriter [])) handshake) = NewWriter []"
  by (simp add: handler_eval handshake_def Let_def)

end
